theory Spec2Isabelle
  imports Complex_Main "HOL-Library.Word"
begin

section \<open>Image ingestion of the blog backend (app.js)\<close>

text \<open>
  The development embeds the upload path of \<^verbatim>\<open>app.js\<close>: the multer configuration
  (\<^verbatim>\<open>upload\<close>, lines 34-47), \<^verbatim>\<open>processImage\<close> (lines 50-106) and the route
  \<^verbatim>\<open>POST /api/admin/upload\<close> (lines 355-379). JavaScript strings are modelled as
  \<^typ>\<open>string\<close> (ASCII), numbers that hold sizes, dimensions and timestamps as \<^typ>\<open>nat\<close>,
  the upload directory as a map from paths to byte sequences, and every \<^verbatim>\<open>await\<close>
  that may reject as a value of an option or outcome type chosen by the environment.
\<close>

subsection \<open>Strings: decimal rendering, prefix test, lower case\<close>

type_synonym byte = "8 word"

definition digit_char :: "nat \<Rightarrow> char" where
  "digit_char d = (''0123456789'' ! d)"

text \<open>What a template literal prints for a non-negative integer below \<open>10^21\<close>.\<close>

function show_nat :: "nat \<Rightarrow> string" where
  "show_nat n = (if n < 10 then [digit_char n] else show_nat (n div 10) @ [digit_char (n mod 10)])"
  by pat_completeness auto
termination
  by (relation "measure (\<lambda>n. n)") auto

declare show_nat.simps [simp del]

text \<open>\<^verbatim>\<open>String.prototype.startsWith\<close>.\<close>

definition startsWith :: "string \<Rightarrow> string \<Rightarrow> bool" where
  "startsWith s p = (take (length p) s = p)"

definition upper_letters :: string where
  "upper_letters = ''ABCDEFGHIJKLMNOPQRSTUVWXYZ''"

definition lower_letters :: string where
  "lower_letters = ''abcdefghijklmnopqrstuvwxyz''"

definition lower_char :: "char \<Rightarrow> char" where
  "lower_char c = (case map_of (zip upper_letters lower_letters) c of Some d \<Rightarrow> d | None \<Rightarrow> c)"

text \<open>\<^verbatim>\<open>String.prototype.toLowerCase\<close> on ASCII text.\<close>

definition toLowerCase :: "string \<Rightarrow> string" where
  "toLowerCase s = map lower_char s"

subsection \<open>Node's path module (POSIX flavour)\<close>

text \<open>
  \<^verbatim>\<open>path.extname\<close>, \<^verbatim>\<open>path.basename\<close> and \<^verbatim>\<open>path.join\<close> belong to the Node runtime,
  not to the repository; they are written here after Node's documented behaviour on POSIX.
  The last component of a path is what remains after trailing slashes are dropped and
  everything up to the last remaining slash is cut off.
\<close>

definition is_slash :: "char \<Rightarrow> bool" where
  "is_slash c = (c = CHR ''/'')"

definition is_dot :: "char \<Rightarrow> bool" where
  "is_dot c = (c = CHR ''.'')"

definition trailing_slashes :: "string \<Rightarrow> string" where
  "trailing_slashes p = takeWhile is_slash (rev p)"

definition last_component :: "string \<Rightarrow> string" where
  "last_component p = rev (takeWhile (\<lambda>c. c \<noteq> CHR ''/'') (dropWhile is_slash (rev p)))"

text \<open>
  \<^verbatim>\<open>path.extname(p)\<close>: from the last dot of the last component to its end; empty when
  there is no dot, when the only dot is the component's first character, and for \<^verbatim>\<open>..\<close>.
\<close>

definition extname :: "string \<Rightarrow> string" where
  "extname p =
     (let comp = last_component p;
          after = rev (takeWhile (\<lambda>c. c \<noteq> CHR ''.'') (rev comp));
          stem = take (length comp - length after - 1) comp
      in if list_ex is_dot comp \<and> stem \<noteq> [] \<and> comp \<noteq> ''..''
         then CHR ''.'' # after else [])"

definition endsWith :: "string \<Rightarrow> string \<Rightarrow> bool" where
  "endsWith s x = (length x \<le> length s \<and> drop (length s - length x) s = x)"

text \<open>
  \<^verbatim>\<open>path.basename(p, suffix)\<close>: the last component, with \<^verbatim>\<open>suffix\<close> removed when the
  component ends with it (compared character by character, so case matters) and is not
  the suffix alone. A component shorter than the suffix and matching its tail is returned
  with the path's trailing slashes, as Node's backward scan leaves it.
\<close>

definition basename :: "string \<Rightarrow> string \<Rightarrow> string" where
  "basename p suffix =
     (if suffix \<noteq> [] \<and> length suffix \<le> length p then
        (if suffix = p then []
         else let comp = last_component p in
           if length comp < length suffix \<and> endsWith suffix comp
             then comp @ trailing_slashes p
           else if endsWith comp suffix \<and> comp \<noteq> suffix
             then take (length comp - length suffix) comp
           else comp)
      else last_component p)"

text \<open>
  \<^verbatim>\<open>path.join(dir, name)\<close> for a directory name without dots or slashes and a file name
  that is one plain component: normalisation changes nothing.
\<close>

definition path_join :: "string \<Rightarrow> string \<Rightarrow> string" where
  "path_join dir name = dir @ ''/'' @ name"

subsection \<open>Constants of the upload path\<close>

text \<open>\<^verbatim>\<open>limits.fileSize\<close> of the multer configuration (line 37).\<close>

definition fileSize :: nat where
  "fileSize = 50 * 1024 * 1024"

text \<open>Lines 67-68 of \<^verbatim>\<open>processImage\<close>.\<close>

definition maxWidth :: nat where
  "maxWidth = 1920"

definition maxHeight :: nat where
  "maxHeight = 1080"

subsection \<open>Filename allocation (lines 52-59)\<close>

definition outputFilename :: "nat \<Rightarrow> nat \<Rightarrow> string \<Rightarrow> string" where
  "outputFilename timestamp uniqueSuffix originalName =
     (let fileExtension = toLowerCase (extname originalName);
          baseName = basename originalName fileExtension
      in show_nat timestamp @ ''-'' @ show_nat uniqueSuffix @ ''-'' @ baseName @ ''.webp'')"


subsection \<open>Resize policy (lines 72-77)\<close>

record ResizeTarget =
  target_width :: nat
  target_height :: nat
  wasResized :: bool

text \<open>The test of line 72.\<close>

definition needsResize :: "nat \<Rightarrow> nat \<Rightarrow> bool" where
  "needsResize w h = (w > maxWidth \<or> h > maxHeight)"

text \<open>
  Modelled from the spec: \<^verbatim>\<open>sharp(...).resize(maxWidth, maxHeight, {fit: 'inside'})\<close> is
  code of the sharp library, which is not part of the sources. Section 4.2 of the
  specification gives what it computes: both dimensions are multiplied by the one factor
  \<open>min (maxWidth / sourceWidth) (maxHeight / sourceHeight)\<close> and rounded to the nearest
  integer, with a minimum of 1. The arithmetic is exact (rational numbers).
\<close>

definition scale_factor :: "nat \<Rightarrow> nat \<Rightarrow> nat \<Rightarrow> nat \<Rightarrow> rat" where
  "scale_factor mw mh w h = min (of_nat mw / of_nat w) (of_nat mh / of_nat h)"

text \<open>Modelled from the spec: rounding to the nearest integer, at least 1 (section 4.2).\<close>

definition round_dimension :: "rat \<Rightarrow> nat" where
  "round_dimension x = max 1 (nat (round x))"

text \<open>
  Modelled from the spec: the dimensions sharp's resize produces, both scaled by the one
  factor and rounded (section 4.2).
\<close>

definition sharp_resize_inside :: "nat \<Rightarrow> nat \<Rightarrow> nat \<Rightarrow> nat \<Rightarrow> nat \<times> nat" where
  "sharp_resize_inside mw mh w h =
     (round_dimension (of_nat w * scale_factor mw mh w h),
      round_dimension (of_nat h * scale_factor mw mh w h))"

text \<open>
  The dimensions of the image that \<^verbatim>\<open>processImage\<close> encodes: the resize is requested
  only when line 72 holds, otherwise the pipeline is the decoded image as it is.
\<close>

definition resizeTarget :: "nat \<Rightarrow> nat \<Rightarrow> ResizeTarget" where
  "resizeTarget w h =
     (if needsResize w h
      then (case sharp_resize_inside maxWidth maxHeight w h of
              (w', h') \<Rightarrow> \<lparr>target_width = w', target_height = h', wasResized = True\<rparr>)
      else \<lparr>target_width = w, target_height = h, wasResized = False\<rparr>)"

subsection \<open>The environment of one request and the state it changes\<close>

record metadata =
  meta_width :: nat
  meta_height :: nat

text \<open>
  What \<^verbatim>\<open>toFile(outputPath)\<close> did: it resolved after writing the encoded bytes, or it
  rejected, leaving nothing or some bytes under \<^verbatim>\<open>outputPath\<close>.
\<close>

datatype write_outcome = Written "byte list" | WriteFailed "byte list option"

text \<open>
  The answers of the outside world during one call: the clock, the random draw (after
  \<^verbatim>\<open>Math.round(Math.random() * 1E9)\<close>), sharp's probe (\<open>None\<close> when it rejects), sharp's
  encoder and writer (given the buffer and whether a resize was requested), and whether
  \<^verbatim>\<open>fs.promises.stat\<close> rejects.
\<close>

record env =
  date_now :: nat
  math_random :: nat
  sharp_metadata :: "byte list \<Rightarrow> metadata option"
  sharp_toFile :: "byte list \<Rightarrow> bool \<Rightarrow> write_outcome"
  fs_stat_rejects :: bool

datatype call = SharpMetadata | SharpToFile string | FsStat string

text \<open>The upload directory, and the calls made to sharp and to the file system so far.\<close>

record world =
  files :: "string \<rightharpoonup> byte list"
  calls :: "call list"

datatype error = OnlyImageFiles | LimitFileSize | ProcessFailed

definition error_message :: "error \<Rightarrow> string" where
  "error_message err =
     (case err of
        OnlyImageFiles \<Rightarrow> ''Only image files are allowed!''
      | LimitFileSize \<Rightarrow> ''File too large''
      | ProcessFailed \<Rightarrow> ''Failed to process image. Please try a different image.'')"

text \<open>\<^verbatim>\<open>fs.promises.stat(p)\<close>, of which only \<^verbatim>\<open>size\<close> is read.\<close>

definition fs_stat :: "env \<Rightarrow> world \<Rightarrow> string \<Rightarrow> nat option" where
  "fs_stat e s p = (if fs_stat_rejects e then None else map_option length (files s p))"

definition log_call :: "call \<Rightarrow> world \<Rightarrow> world" where
  "log_call c s = s\<lparr>calls := calls s @ [c]\<rparr>"

definition leave_file :: "string \<Rightarrow> byte list option \<Rightarrow> world \<Rightarrow> world" where
  "leave_file p left s = (case left of None \<Rightarrow> s | Some bs \<Rightarrow> s\<lparr>files := (files s)(p \<mapsto> bs)\<rparr>)"

subsection \<open>processImage (lines 50-106)\<close>

record processedImage =
  filename :: string
  originalName :: string
  size_bytes :: nat
  width :: nat
  height :: nat

text \<open>
  Every rejection inside the \<^verbatim>\<open>try\<close> block reaches the \<^verbatim>\<open>catch\<close> of lines 102-105,
  which throws the one error \<open>ProcessFailed\<close> and undoes nothing.
\<close>

definition processImage ::
  "env \<Rightarrow> world \<Rightarrow> byte list \<Rightarrow> string \<Rightarrow> (error + processedImage) \<times> world" where
  "processImage e s buffer name =
     (let out_name = outputFilename (date_now e) (math_random e) name;
          out_path = path_join ''uploads'' out_name;
          s1 = log_call SharpMetadata s
      in case sharp_metadata e buffer of
           None \<Rightarrow> (Inl ProcessFailed, s1)
         | Some m \<Rightarrow>
             (let resize = needsResize (meta_width m) (meta_height m);
                  s2 = log_call (SharpToFile out_path) s1
              in case sharp_toFile e buffer resize of
                   WriteFailed left \<Rightarrow> (Inl ProcessFailed, leave_file out_path left s2)
                 | Written bs \<Rightarrow>
                     (let s3 = log_call (FsStat out_path) (leave_file out_path (Some bs) s2)
                      in case fs_stat e s3 out_path of
                           None \<Rightarrow> (Inl ProcessFailed, s3)
                         | Some n \<Rightarrow>
                             (Inr \<lparr>filename = out_name,
                                   originalName = name,
                                   size_bytes = n,
                                   width = (if meta_width m > maxWidth then maxWidth else meta_width m),
                                   height = (if meta_height m > maxHeight then maxHeight else meta_height m)\<rparr>,
                              s3))))"

subsection \<open>The multer middleware (lines 34-47)\<close>

record upload_file =
  originalname :: string
  mimetype :: string
  buffer :: "byte list"

text \<open>
  A request carries the session's user id, if any, and the file that multer finds in
  the form field \<^verbatim>\<open>image\<close>, if any: a file part of that field with a file name.
\<close>

record request =
  session_userId :: "nat option"
  req_file :: "upload_file option"

definition fileFilter :: "upload_file \<Rightarrow> bool" where
  "fileFilter f = startsWith (mimetype f) ''image/''"

text \<open>
  \<^verbatim>\<open>upload.single('image')\<close>: multer asks \<^verbatim>\<open>fileFilter\<close> when the file part starts and
  aborts with its error; it then buffers the file and aborts with \<^verbatim>\<open>LIMIT_FILE_SIZE\<close>
  once more than \<^verbatim>\<open>limits.fileSize\<close> bytes have arrived. Without a file part
  \<^verbatim>\<open>req.file\<close> stays undefined. (What multer does with a file of exactly
  \<^verbatim>\<open>limits.fileSize\<close> bytes depends on the version of its parser; no property below
  looks at that case.)
\<close>

definition upload_single :: "request \<Rightarrow> error + upload_file option" where
  "upload_single req =
     (case req_file req of
        None \<Rightarrow> Inr None
      | Some f \<Rightarrow>
          if fileFilter f
          then (if length (buffer f) > fileSize then Inl LimitFileSize else Inr (Some f))
          else Inl OnlyImageFiles)"

subsection \<open>The route POST /api/admin/upload (lines 152-158 and 355-379)\<close>

definition requireAuth :: "request \<Rightarrow> bool" where
  "requireAuth req = (case session_userId req of None \<Rightarrow> False | Some uid \<Rightarrow> 0 < uid)"

record upload_json =
  url :: string
  json_filename :: string
  json_originalName :: string
  json_size :: nat
  dimensions :: string
  message :: string

datatype body = ErrorJson string | UploadJson upload_json

text \<open>
  A response is a status with a JSON body, or the error that a middleware handed to
  \<^verbatim>\<open>next\<close>, which Express answers outside the route.
\<close>

datatype response = Json nat body | NextError error

definition success_json :: "processedImage \<Rightarrow> upload_json" where
  "success_json p =
     \<lparr>url = ''/uploads/'' @ filename p,
      json_filename = filename p,
      json_originalName = originalName p,
      json_size = size_bytes p,
      dimensions = show_nat (width p) @ ''x'' @ show_nat (height p),
      message = ''Image uploaded and optimized successfully''\<rparr>"

definition upload_handler :: "env \<Rightarrow> world \<Rightarrow> upload_file option \<Rightarrow> response \<times> world" where
  "upload_handler e s uploaded =
     (case uploaded of
        None \<Rightarrow> (Json 400 (ErrorJson ''No file uploaded''), s)
      | Some f \<Rightarrow>
          (case processImage e s (buffer f) (originalname f) of
             (Inl err, s') \<Rightarrow>
               (Json 500 (ErrorJson (if error_message err = []
                                      then ''Failed to upload and process image''
                                      else error_message err)), s')
           | (Inr p, s') \<Rightarrow> (Json 200 (UploadJson (success_json p)), s')))"

text \<open>The two steps of the route that follow \<^verbatim>\<open>requireAuth\<close>: multer, then the handler.\<close>

definition ingest :: "env \<Rightarrow> world \<Rightarrow> request \<Rightarrow> response \<times> world" where
  "ingest e s req =
     (case upload_single req of
        Inl err \<Rightarrow> (NextError err, s)
      | Inr uploaded \<Rightarrow> upload_handler e s uploaded)"

definition upload_route :: "env \<Rightarrow> world \<Rightarrow> request \<Rightarrow> response \<times> world" where
  "upload_route e s req =
     (if requireAuth req
      then ingest e s req
      else (Json 401 (ErrorJson ''Authentication required''), s))"


subsection \<open>Sample environments and requests\<close>

definition world0 :: world where
  "world0 = \<lparr>files = Map.empty, calls = []\<rparr>"

text \<open>A 4000 by 2000 image that decodes, encodes to four bytes and can be measured.\<close>

definition env_ok :: env where
  "env_ok =
     \<lparr>date_now = 1700000000000,
      math_random = 123456789,
      sharp_metadata = (\<lambda>_. Some \<lparr>meta_width = 4000, meta_height = 2000\<rparr>),
      sharp_toFile = (\<lambda>_ _. Written [82, 73, 70, 70]),
      fs_stat_rejects = False\<rparr>"




definition photo_upload :: upload_file where
  "photo_upload = \<lparr>originalname = ''photo.jpg'', mimetype = ''image/jpeg'', buffer = []\<rparr>"

definition text_upload :: upload_file where
  "text_upload = \<lparr>originalname = ''notes.txt'', mimetype = ''text/plain'', buffer = []\<rparr>"

text \<open>Two uploads of one byte more than 50 MiB.\<close>

definition big_image_upload :: upload_file where
  "big_image_upload =
     \<lparr>originalname = ''big.png'', mimetype = ''image/png'', buffer = replicate 52428801 0\<rparr>"

definition big_text_upload :: upload_file where
  "big_text_upload =
     \<lparr>originalname = ''big.txt'', mimetype = ''text/plain'', buffer = replicate 52428801 0\<rparr>"

definition admin_request :: "upload_file option \<Rightarrow> request" where
  "admin_request f = \<lparr>session_userId = Some 1, req_file = f\<rparr>"

section \<open>Properties\<close>

subsection \<open>Evaluation at the sample inputs\<close>

lemmas path_defs = extname_def basename_def last_component_def trailing_slashes_def
  is_slash_def is_dot_def endsWith_def toLowerCase_def lower_char_def upper_letters_def
  lower_letters_def path_join_def

lemmas show_defs = show_nat.simps digit_char_def

lemmas world_defs = world0_def log_call_def leave_file_def fs_stat_def

lemma outputFilename_photo:
  "outputFilename 1700000000000 123456789 ''photo.jpg'' = ''1700000000000-123456789-photo.webp''"
  by (simp add: outputFilename_def path_defs show_defs)

lemma processImage_env_ok:
  "processImage env_ok world0 [] ''photo.jpg'' =
     (Inr \<lparr>filename = ''1700000000000-123456789-photo.webp'',
           originalName = ''photo.jpg'', size_bytes = 4, width = 1920, height = 1080\<rparr>,
      \<lparr>files = [''uploads/1700000000000-123456789-photo.webp'' \<mapsto> [82, 73, 70, 70]],
       calls = [SharpMetadata,
                SharpToFile ''uploads/1700000000000-123456789-photo.webp'',
                FsStat ''uploads/1700000000000-123456789-photo.webp'']\<rparr>)"
  by (simp add: processImage_def Let_def env_ok_def outputFilename_photo path_join_def
      world_defs needsResize_def maxWidth_def maxHeight_def)

lemma ingest_env_ok:
  "ingest env_ok world0 (admin_request (Some photo_upload)) =
     (Json 200 (UploadJson
        \<lparr>url = ''/uploads/1700000000000-123456789-photo.webp'',
         json_filename = ''1700000000000-123456789-photo.webp'',
         json_originalName = ''photo.jpg'',
         json_size = 4,
         dimensions = ''1920x1080'',
         message = ''Image uploaded and optimized successfully''\<rparr>),
      \<lparr>files = [''uploads/1700000000000-123456789-photo.webp'' \<mapsto> [82, 73, 70, 70]],
       calls = [SharpMetadata,
                SharpToFile ''uploads/1700000000000-123456789-photo.webp'',
                FsStat ''uploads/1700000000000-123456789-photo.webp'']\<rparr>)"
  by (simp add: ingest_def upload_single_def upload_handler_def fileFilter_def startsWith_def
      fileSize_def admin_request_def photo_upload_def processImage_env_ok success_json_def
      show_defs)

subsection \<open>What a successful call of processImage has done\<close>

lemma processImage_Inr:
  assumes "processImage e s buf name = (Inr p, s')"
  shows "\<exists>m. sharp_metadata e buf = Some m
           \<and> width p = (if meta_width m > maxWidth then maxWidth else meta_width m)
           \<and> height p = (if meta_height m > maxHeight then maxHeight else meta_height m)"
  using assms
  by (auto simp: processImage_def Let_def split: option.splits write_outcome.splits)

subsection \<open>Rounding and scaling\<close>

lemma round_dimension_le:
  assumes "x \<le> of_nat N" and "1 \<le> N"
  shows "round_dimension x \<le> N"
proof -
  have "round x \<le> round (of_nat N :: rat)" using assms(1) by (rule round_mono)
  then have "round x \<le> int N" by simp
  then have "nat (round x) \<le> N" by simp
  with assms(2) show ?thesis by (simp add: round_dimension_def)
qed

lemma round_dimension_close:
  assumes "0 < x"
  shows "\<bar>of_nat (round_dimension x) - x\<bar> < 1"
proof (cases "1 \<le> round x")
  case True
  then have "1 \<le> nat (round x)" by linarith
  then have "round_dimension x = nat (round x)" by (simp add: round_dimension_def)
  with True have "of_nat (round_dimension x) = (of_int (round x) :: rat)" by simp
  moreover have "\<bar>of_int (round x) - x\<bar> \<le> 1 / 2" by (rule of_int_round_abs_le)
  ultimately show ?thesis by simp
next
  case False
  then have r: "round x \<le> 0" by simp
  then have "round_dimension x = 1" by (simp add: round_dimension_def max_def)
  moreover have "x < 1"
  proof -
    have "x + 1/2 < of_int (round x) + 1" unfolding round_def by linarith
    also have "\<dots> \<le> 1" using r by simp
    finally show ?thesis by simp
  qed
  ultimately show ?thesis using assms by simp
qed

lemma scale_factor_pos:
  "0 < w \<Longrightarrow> 0 < h \<Longrightarrow> 0 < mw \<Longrightarrow> 0 < mh \<Longrightarrow> 0 < scale_factor mw mh w h"
  by (simp add: scale_factor_def)

lemma scaled_width_le:
  assumes "0 < w"
  shows "of_nat w * scale_factor mw mh w h \<le> of_nat mw"
proof -
  have "scale_factor mw mh w h \<le> of_nat mw / of_nat w" by (simp add: scale_factor_def)
  then have "of_nat w * scale_factor mw mh w h \<le> of_nat w * (of_nat mw / of_nat w)"
    by (rule mult_left_mono) simp
  also have "\<dots> = of_nat mw" using assms by simp
  finally show ?thesis .
qed

lemma scaled_height_le:
  assumes "0 < h"
  shows "of_nat h * scale_factor mw mh w h \<le> of_nat mh"
proof -
  have "scale_factor mw mh w h \<le> of_nat mh / of_nat h" by (simp add: scale_factor_def)
  then have "of_nat h * scale_factor mw mh w h \<le> of_nat h * (of_nat mh / of_nat h)"
    by (rule mult_left_mono) simp
  also have "\<dots> = of_nat mh" using assms by simp
  finally show ?thesis .
qed

lemma resizeTarget_4000_2000:
  "resizeTarget 4000 2000 = \<lparr>target_width = 1920, target_height = 960, wasResized = True\<rparr>"
  by (simp add: resizeTarget_def needsResize_def sharp_resize_inside_def scale_factor_def
      round_dimension_def maxWidth_def maxHeight_def)

subsection \<open>Reported dimensions\<close>

text \<open>
  C1. Whenever \<^verbatim>\<open>processImage\<close> returns a result, sharp's probe had returned metadata,
  and the reported width is the smaller of the decoded width and 1920, the reported
  height the smaller of the decoded height and 1080: each dimension is clamped on its
  own, whatever the dimensions of the stored image are.
\<close>

theorem C1_reported_dimensions_clamped:
  "processImage e s buf name = (Inr p, s') \<Longrightarrow>
   \<exists>m. sharp_metadata e buf = Some m
     \<and> width p = min (meta_width m) 1920
     \<and> height p = min (meta_height m) 1080"
  by (drule processImage_Inr) (auto simp: maxWidth_def maxHeight_def)

theorem C1_reported_dimensions_clamped_witness:
  "fst (processImage env_ok world0 [] ''photo.jpg'') =
     Inr \<lparr>filename = ''1700000000000-123456789-photo.webp'',
          originalName = ''photo.jpg'', size_bytes = 4, width = 1920, height = 1080\<rparr>
   \<and> (\<exists>m. sharp_metadata env_ok [] = Some m
          \<and> (1920::nat) = min (meta_width m) 1920 \<and> (1080::nat) = min (meta_height m) 1080)"
  using C1_reported_dimensions_clamped [OF processImage_env_ok]
  by (simp add: processImage_env_ok)

subsection \<open>Resize policy\<close>

text \<open>
  C3. A source of at most 1920 by 1080 pixels is not resized: the target is the source,
  \<open>wasResized\<close> is false, and applying the policy to that target gives it again.
\<close>

theorem C3_within_bounds_unchanged:
  assumes "w \<le> 1920" and "h \<le> 1080"
  shows "resizeTarget w h = \<lparr>target_width = w, target_height = h, wasResized = False\<rparr>
       \<and> resizeTarget (target_width (resizeTarget w h)) (target_height (resizeTarget w h))
           = resizeTarget w h"
  using assms by (simp add: resizeTarget_def needsResize_def maxWidth_def maxHeight_def)

theorem C3_within_bounds_unchanged_witness:
  "(800::nat) \<le> 1920 \<and> (600::nat) \<le> 1080
   \<and> resizeTarget 800 600 = \<lparr>target_width = 800, target_height = 600, wasResized = False\<rparr>"
  using C3_within_bounds_unchanged [of 800 600] by simp

text \<open>
  C4. A source with positive dimensions that exceeds 1920 in width or 1080 in height is
  resized: with \<open>f = min (1920 / w) (1080 / h)\<close>, the target width is \<open>w * f\<close> and the
  target height \<open>h * f\<close>, each rounded to the nearest integer and at least 1;
  \<open>wasResized\<close> is true; the target is at most 1920 by 1080; and each target dimension
  is less than one pixel away from the exactly scaled one, which keeps the aspect ratio.
\<close>

theorem C4_oversized_scaled_uniformly:
  assumes "0 < w" and "0 < h" and "w > 1920 \<or> h > 1080"
  shows "let f = min (1920 / of_nat w) (1080 / of_nat h) :: rat; t = resizeTarget w h
         in wasResized t
          \<and> target_width t = max 1 (nat (round (of_nat w * f)))
          \<and> target_height t = max 1 (nat (round (of_nat h * f)))
          \<and> target_width t \<le> 1920 \<and> target_height t \<le> 1080
          \<and> \<bar>of_nat (target_width t) - of_nat w * f\<bar> < 1
          \<and> \<bar>of_nat (target_height t) - of_nat h * f\<bar> < 1"
proof -
  define f :: rat where "f = scale_factor maxWidth maxHeight w h"
  have f_eq: "f = min (1920 / of_nat w) (1080 / of_nat h)"
    by (simp add: f_def scale_factor_def maxWidth_def maxHeight_def)
  have t_eq: "resizeTarget w h =
      \<lparr>target_width = round_dimension (of_nat w * f),
       target_height = round_dimension (of_nat h * f), wasResized = True\<rparr>"
    using assms(3)
    by (simp add: resizeTarget_def needsResize_def sharp_resize_inside_def f_def
        maxWidth_def maxHeight_def)
  have fpos: "0 < f" unfolding f_def using assms(1,2)
    by (intro scale_factor_pos) (simp_all add: maxWidth_def maxHeight_def)
  have wle: "round_dimension (of_nat w * f) \<le> 1920"
    using scaled_width_le [OF assms(1), of maxWidth maxHeight h]
    by (intro round_dimension_le) (simp_all add: f_def maxWidth_def)
  have hle: "round_dimension (of_nat h * f) \<le> 1080"
    using scaled_height_le [OF assms(2), of maxWidth maxHeight w]
    by (intro round_dimension_le) (simp_all add: f_def maxHeight_def)
  have wcl: "\<bar>of_nat (round_dimension (of_nat w * f)) - of_nat w * f\<bar> < 1"
    using assms(1) fpos by (intro round_dimension_close) simp
  have hcl: "\<bar>of_nat (round_dimension (of_nat h * f)) - of_nat h * f\<bar> < 1"
    using assms(2) fpos by (intro round_dimension_close) simp
  show ?thesis
    unfolding Let_def f_eq [symmetric] t_eq
    using wle hle wcl hcl by (simp add: round_dimension_def)
qed

theorem C4_oversized_scaled_uniformly_witness:
  "(0::nat) < 4000 \<and> (0::nat) < 2000 \<and> (1920::nat) < 4000
   \<and> min (1920 / of_nat 4000) (1080 / of_nat 2000) = (12 / 25 :: rat)
   \<and> resizeTarget 4000 2000 = \<lparr>target_width = 1920, target_height = 960, wasResized = True\<rparr>"
  using C4_oversized_scaled_uniformly [of 4000 2000]
  by (simp add: resizeTarget_4000_2000)

text \<open>
  C2. When the route answers 200 for an upload that sharp decodes as 4000 by 2000 pixels,
  the \<open>dimensions\<close> string of the response is \<open>1920x1080\<close>: width and height are clamped
  separately (the stored image, by the resize policy, is 1920 by 960).
\<close>

theorem C2_dimensions_4000_2000:
  assumes "ingest e s req = (Json 200 (UploadJson j), s')"
      and "req_file req = Some f"
      and "sharp_metadata e (buffer f) = Some \<lparr>meta_width = 4000, meta_height = 2000\<rparr>"
  shows "dimensions j = ''1920x1080''"
proof -
  from assms(1,2) obtain p
    where p: "processImage e s (buffer f) (originalname f) = (Inr p, s')"
      and j: "j = success_json p"
    by (auto simp: ingest_def upload_single_def upload_handler_def
        split: if_splits sum.splits prod.splits)
  from processImage_Inr [OF p] assms(3)
  have "width p = 1920" and "height p = 1080"
    by (auto simp: maxWidth_def maxHeight_def)
  then show ?thesis by (simp add: j success_json_def show_defs)
qed

theorem C2_dimensions_4000_2000_witness:
  "req_file (admin_request (Some photo_upload)) = Some photo_upload
   \<and> sharp_metadata env_ok (buffer photo_upload) = Some \<lparr>meta_width = 4000, meta_height = 2000\<rparr>
   \<and> fst (ingest env_ok world0 (admin_request (Some photo_upload))) =
       Json 200 (UploadJson
         \<lparr>url = ''/uploads/1700000000000-123456789-photo.webp'',
          json_filename = ''1700000000000-123456789-photo.webp'',
          json_originalName = ''photo.jpg'',
          json_size = 4,
          dimensions = ''1920x1080'',
          message = ''Image uploaded and optimized successfully''\<rparr>)"
proof -
  have a: "req_file (admin_request (Some photo_upload)) = Some photo_upload"
    by (simp add: admin_request_def)
  have b: "sharp_metadata env_ok (buffer photo_upload)
             = Some \<lparr>meta_width = 4000, meta_height = 2000\<rparr>"
    by (simp add: env_ok_def)
  from C2_dimensions_4000_2000 [OF ingest_env_ok a b] a b
  show ?thesis by (simp add: ingest_env_ok)
qed

text \<open>
  The 4000 by 2000 upload is answered with \<open>1920x1080\<close>, not with \<open>1920x960\<close>, although
  the resize policy gives a 1920 by 960 image.
\<close>

theorem C2_dimensions_counterexample:
  "sharp_metadata env_ok (buffer photo_upload) = Some \<lparr>meta_width = 4000, meta_height = 2000\<rparr>
   \<and> fst (upload_route env_ok world0 (admin_request (Some photo_upload))) =
       Json 200 (UploadJson
         \<lparr>url = ''/uploads/1700000000000-123456789-photo.webp'',
          json_filename = ''1700000000000-123456789-photo.webp'',
          json_originalName = ''photo.jpg'',
          json_size = 4,
          dimensions = ''1920x1080'',
          message = ''Image uploaded and optimized successfully''\<rparr>)
   \<and> ''1920x1080'' \<noteq> ''1920x960''
   \<and> resizeTarget 4000 2000 = \<lparr>target_width = 1920, target_height = 960, wasResized = True\<rparr>"
proof -
  have a: "requireAuth (admin_request (Some photo_upload))"
    by (simp add: requireAuth_def admin_request_def)
  have b: "sharp_metadata env_ok (buffer photo_upload)
             = Some \<lparr>meta_width = 4000, meta_height = 2000\<rparr>"
    by (simp add: env_ok_def)
  from a b show ?thesis
    by (simp add: upload_route_def ingest_env_ok resizeTarget_4000_2000)
qed

subsection \<open>Failure\<close>












subsection \<open>Stored filename\<close>

text \<open>
  C6. For the original name \<open>Photo.JPG\<close> the stored filename keeps the extension inside
  the base name: \<^verbatim>\<open>path.extname\<close> gives \<open>.JPG\<close>, line 52 lowers it to \<open>.jpg\<close>, and
  \<^verbatim>\<open>path.basename\<close>, which compares the suffix exactly, removes nothing.
\<close>

theorem C6_uppercase_extension_kept:
  "outputFilename 1700000000000 123456789 ''Photo.JPG'' = ''1700000000000-123456789-Photo.JPG.webp''
   \<and> extname ''Photo.JPG'' = ''.JPG''
   \<and> toLowerCase (extname ''Photo.JPG'') = ''.jpg''
   \<and> basename ''Photo.JPG'' (toLowerCase (extname ''Photo.JPG'')) = ''Photo.JPG''"
  by (simp add: outputFilename_def path_defs show_defs)

subsection \<open>Reported size\<close>



subsection \<open>Rejections before processImage\<close>

text \<open>
  C8. An upload whose media type does not start with \<open>image/\<close> is rejected by multer
  with the error \<open>Only image files are allowed!\<close>; the state is returned as it was, so
  sharp was not called and nothing was written. This holds for the steps after
  \<^verbatim>\<open>requireAuth\<close>, and so for the whole route on an authenticated request.
\<close>

theorem C8_non_image_rejected:
  assumes "req_file req = Some f" and "\<not> startsWith (mimetype f) ''image/''"
  shows "ingest e s req = (NextError OnlyImageFiles, s)
       \<and> (requireAuth req \<longrightarrow> upload_route e s req = (NextError OnlyImageFiles, s))"
  using assms by (simp add: upload_route_def ingest_def upload_single_def fileFilter_def)

theorem C8_non_image_rejected_witness:
  "req_file (admin_request (Some text_upload)) = Some text_upload
   \<and> \<not> startsWith (mimetype text_upload) ''image/''
   \<and> requireAuth (admin_request (Some text_upload))
   \<and> upload_route env_ok world0 (admin_request (Some text_upload))
       = (NextError OnlyImageFiles, world0)"
  using C8_non_image_rejected [of "admin_request (Some text_upload)" text_upload env_ok world0]
  by (simp add: admin_request_def text_upload_def startsWith_def requireAuth_def)

text \<open>
  C9. An upload of more than 50 MiB never reaches \<^verbatim>\<open>processImage\<close>: multer rejects it
  and the state is returned as it was. The error is \<open>LimitFileSize\<close> when the media type
  starts with \<open>image/\<close>; otherwise the file filter, which runs first, has already
  rejected the upload with \<open>OnlyImageFiles\<close>.
\<close>

theorem C9_oversized_rejected:
  assumes "req_file req = Some f" and "length (buffer f) > 50 * 1024 * 1024"
  shows "ingest e s req =
           (NextError (if startsWith (mimetype f) ''image/''
                       then LimitFileSize else OnlyImageFiles), s)
       \<and> (requireAuth req \<longrightarrow> upload_route e s req = ingest e s req)"
  using assms
  by (simp add: upload_route_def ingest_def upload_single_def fileFilter_def fileSize_def)

theorem C9_oversized_rejected_witness:
  "req_file (admin_request (Some big_image_upload)) = Some big_image_upload
   \<and> length (buffer big_image_upload) > 50 * 1024 * 1024
   \<and> requireAuth (admin_request (Some big_image_upload))
   \<and> upload_route env_ok world0 (admin_request (Some big_image_upload))
       = (NextError LimitFileSize, world0)"
  using C9_oversized_rejected
    [of "admin_request (Some big_image_upload)" big_image_upload env_ok world0]
  by (simp add: admin_request_def big_image_upload_def startsWith_def requireAuth_def)

text \<open>
  A \<open>text/plain\<close> upload of one byte more than 50 MiB is rejected with
  \<open>OnlyImageFiles\<close>, not with \<open>LimitFileSize\<close>.
\<close>

theorem C9_oversized_text_counterexample:
  "length (buffer big_text_upload) > 50 * 1024 * 1024
   \<and> upload_route env_ok world0 (admin_request (Some big_text_upload))
       = (NextError OnlyImageFiles, world0)
   \<and> OnlyImageFiles \<noteq> LimitFileSize"
  by (simp add: upload_route_def ingest_def upload_single_def requireAuth_def fileFilter_def
      startsWith_def admin_request_def big_text_upload_def)

text \<open>
  C10. A request without a file is answered with status 400 and the body
  \<open>{"error": "No file uploaded"}\<close>; the state is returned as it was, so sharp was not
  called and nothing was written. This holds for the steps after \<^verbatim>\<open>requireAuth\<close>, and
  so for the whole route on an authenticated request.
\<close>

theorem C10_no_file_400:
  assumes "req_file req = None"
  shows "ingest e s req = (Json 400 (ErrorJson ''No file uploaded''), s)
       \<and> (requireAuth req \<longrightarrow>
            upload_route e s req = (Json 400 (ErrorJson ''No file uploaded''), s))"
  using assms
  by (simp add: upload_route_def ingest_def upload_single_def upload_handler_def)

theorem C10_no_file_400_witness:
  "req_file (admin_request None) = None \<and> requireAuth (admin_request None)
   \<and> upload_route env_ok world0 (admin_request None)
       = (Json 400 (ErrorJson ''No file uploaded''), world0)"
  using C10_no_file_400 [of "admin_request None" env_ok world0]
  by (simp add: admin_request_def requireAuth_def)

end
